theory Spec2Isabelle
  imports Main
begin

section \<open>JavaScript values\<close>

text \<open>
  The arguments of a Meteor method are dynamically typed. A JavaScript value is one of
  the EJSON shapes below; an object is the list of its own properties in order. A Number
  is modelled by the integer it denotes (character offsets, scores and ids of the
  sentences collection): fractions, \<open>NaN\<close> and the infinities are left out. The one
  arithmetic operation of sentences.js, the addition of line 54, is the addition of IEEE
  754 doubles and is modelled with its rounding (\<open>js_plus\<close> below).
\<close>

datatype jsval =
    JUndefined
  | JNull
  | JBool bool
  | JNum int
  | JStr string
  | JArr "jsval list"
  | JObj "(string \<times> jsval) list"

subsection \<open>Addition of Numbers\<close>

text \<open>
  A double has a significand of 53 bits. \<open>shift_of a\<close> is the number of low bits that a
  magnitude \<open>a\<close> has beyond 53, the bits a double cannot keep.
\<close>

function shift_of :: "int \<Rightarrow> nat" where
  "shift_of a = (if a < 2 ^ 53 then 0 else Suc (shift_of (a div 2)))"
  by pat_completeness auto
termination
  by (relation "measure nat") auto

declare shift_of.simps [simp del]

text \<open>
  Rounding a magnitude to the nearest double, ties to the even significand (the default
  rounding mode, the only one of JavaScript).
\<close>

definition round_magnitude :: "int \<Rightarrow> int" where
  "round_magnitude a =
     (let s = shift_of a; q = a div 2 ^ s; r = a mod 2 ^ s
      in if 2 * r > 2 ^ s \<or> (2 * r = 2 ^ s \<and> odd q) then (q + 1) * 2 ^ s else q * 2 ^ s)"

definition to_double :: "int \<Rightarrow> int" where
  "to_double x = (if x < 0 then - round_magnitude (- x) else round_magnitude x)"

text \<open>
  \<open>a + b\<close> on Numbers: the exact sum, rounded. Adding \<open>1\<close> to a double never reaches
  infinity (the largest double plus one rounds to itself), so the sum of line 54 is
  always a finite double.
\<close>

definition js_plus :: "int \<Rightarrow> int \<Rightarrow> int" where
  "js_plus a b = to_double (a + b)"

subsection \<open>Patterns of meteor/check\<close>

text \<open>The patterns \<open>check\<close> of meteor/check is called with in sentences.js.\<close>

datatype pattern =
    PString
  | PNumber
  | PArray pattern
  | PObject "(string \<times> pattern) list"

text \<open>
  \<open>check(value, pattern)\<close> throws Match.Error unless the value matches: \<open>String\<close> and
  \<open>Number\<close> test \<open>typeof\<close>; \<open>[p]\<close> wants an array whose elements all match \<open>p\<close>; an
  object pattern wants a plain object with no key outside the pattern and every key of
  the pattern present with a matching value.
\<close>

fun matches :: "pattern \<Rightarrow> jsval \<Rightarrow> bool" where
  "matches PString v = (case v of JStr _ \<Rightarrow> True | _ \<Rightarrow> False)"
| "matches PNumber v = (case v of JNum _ \<Rightarrow> True | _ \<Rightarrow> False)"
| "matches (PArray p) v = (case v of JArr xs \<Rightarrow> list_all (matches p) xs | _ \<Rightarrow> False)"
| "matches (PObject ps) v =
     (case v of
        JObj kvs \<Rightarrow>
          list_all (\<lambda>k. k \<in> set (map fst ps)) (map fst kvs) \<and>
          list_all (\<lambda>(k, p). case map_of kvs k of None \<Rightarrow> False | Some x \<Rightarrow> matches p x) ps
      | _ \<Rightarrow> False)"

text \<open>Property access \<open>o.k\<close>: \<open>undefined\<close> when the property is absent.\<close>

fun get_prop :: "jsval \<Rightarrow> string \<Rightarrow> jsval" where
  "get_prop (JObj kvs) k = (case map_of kvs k of None \<Rightarrow> JUndefined | Some v \<Rightarrow> v)"
| "get_prop _ k = JUndefined"

text \<open>Typed views of values that passed \<open>check\<close>.\<close>

fun str_of :: "jsval \<Rightarrow> string" where
  "str_of (JStr s) = s"
| "str_of _ = []"

fun num_of :: "jsval \<Rightarrow> int" where
  "num_of (JNum n) = n"
| "num_of _ = 0"

fun elems_of :: "jsval \<Rightarrow> jsval list" where
  "elems_of (JArr xs) = xs"
| "elems_of _ = []"

section \<open>The sentences collection\<close>

text \<open>
  A stored sentence document, with the fields sentences.insert writes. The fields
  \<open>begin\<close> and \<open>end\<close> of the source are \<open>span_begin\<close>, \<open>span_end\<close> and \<open>ann_begin\<close>,
  \<open>ann_end\<close> here, and \<open>_id\<close> is \<open>doc_id\<close>. A document of the collection may lack
  \<open>readableId\<close> (\<open>None\<close>); \<open>username\<close> is \<open>None\<close> when the user document has none.
\<close>

record annotation =
  ann_type :: string
  ann_begin :: int
  ann_end :: int

record spanAnnotation =
  span_type :: string
  span_begin :: int
  span_end :: int

record doc =
  doc_id :: string
  sentence :: string
  annotations :: "annotation list"
  spanAnnotations :: "spanAnnotation list"
  zScore :: int
  readableId :: "int option"
  createdAt :: int
  owner :: string
  username :: "string option"

record user =
  user_id :: string
  user_name :: "string option"

text \<open>The server's state: the collection \<open>Sentences\<close> in natural order, and \<open>Meteor.users\<close>.\<close>

record store =
  Sentences :: "doc list"
  users :: "user list"

text \<open>The method invocation object \<open>this\<close>: \<open>userId\<close> is \<open>None\<close> when nobody is logged in.\<close>

record invocation =
  userId :: "string option"

datatype error = MatchError | NotAuthorized | TypeError | ReferenceError | DuplicateKey

datatype outcome = Returned | Threw error

text \<open>Stored array elements as the JavaScript objects they are, and back.\<close>

definition annotation_js :: "annotation \<Rightarrow> jsval" where
  "annotation_js a =
     JObj [(''type'', JStr (ann_type a)),
           (''value'', JObj [(''begin'', JNum (ann_begin a)), (''end'', JNum (ann_end a))])]"

definition spanAnnotation_js :: "spanAnnotation \<Rightarrow> jsval" where
  "spanAnnotation_js s =
     JObj [(''type'', JStr (span_type s)), (''begin'', JNum (span_begin s)),
           (''end'', JNum (span_end s))]"

definition annotation_of :: "jsval \<Rightarrow> annotation" where
  "annotation_of v =
     \<lparr>ann_type = str_of (get_prop v ''type''),
      ann_begin = num_of (get_prop (get_prop v ''value'') ''begin''),
      ann_end = num_of (get_prop (get_prop v ''value'') ''end'')\<rparr>"

definition spanAnnotation_of :: "jsval \<Rightarrow> spanAnnotation" where
  "spanAnnotation_of v =
     \<lparr>span_type = str_of (get_prop v ''type''),
      span_begin = num_of (get_prop v ''begin''),
      span_end = num_of (get_prop v ''end'')\<rparr>"

subsection \<open>The store's primitives\<close>

text \<open>
  \<open>findOne({}, {sort: {readableId: -1}})\<close>: the first document in descending order of
  \<open>readableId\<close>, \<open>None\<close> on the empty collection. A missing field sorts below every
  number; among equal keys the earlier document is returned.
\<close>

fun key_less :: "int option \<Rightarrow> int option \<Rightarrow> bool" where
  "key_less None None = False"
| "key_less None (Some b) = True"
| "key_less (Some a) None = False"
| "key_less (Some a) (Some b) = (a < b)"

fun findOne_sort_desc :: "doc list \<Rightarrow> doc option" where
  "findOne_sort_desc [] = None"
| "findOne_sort_desc (d # ds) =
     (case findOne_sort_desc ds of
        None \<Rightarrow> Some d
      | Some b \<Rightarrow> if key_less (readableId d) (readableId b) then Some b else Some d)"

text \<open>\<open>findOne(id)\<close> on \<open>Meteor.users\<close>.\<close>

definition findOne_user :: "user list \<Rightarrow> string \<Rightarrow> user option" where
  "findOne_user us uid = find (\<lambda>u. user_id u = uid) us"

text \<open>\<open>insert(doc)\<close>: appends, and fails on an \<open>_id\<close> the collection already holds.\<close>

definition coll_insert :: "doc \<Rightarrow> doc list \<Rightarrow> error + doc list" where
  "coll_insert d ds = (if doc_id d \<in> set (map doc_id ds) then Inl DuplicateKey else Inr (ds @ [d]))"

text \<open>\<open>remove(id)\<close>: deletes the documents with that \<open>_id\<close>; nothing happens when there is none.\<close>

definition coll_remove :: "string \<Rightarrow> doc list \<Rightarrow> doc list" where
  "coll_remove sid ds = filter (\<lambda>d. doc_id d \<noteq> sid) ds"

text \<open>
  \<open>update(id, modifier)\<close> and \<open>update({_id: id}, modifier)\<close>: applies the modifier to
  the first document with that \<open>_id\<close>; nothing happens when there is none.
\<close>

fun coll_update :: "string \<Rightarrow> (doc \<Rightarrow> doc) \<Rightarrow> doc list \<Rightarrow> doc list" where
  "coll_update sid f [] = []"
| "coll_update sid f (d # ds) = (if doc_id d = sid then f d # ds else d # coll_update sid f ds)"

text \<open>
  The condition of a \<open>$pull\<close> that is an object is a query on each array element: the
  element is pulled when each field of the condition equals the element's field. This
  is the store's behaviour on conditions made of plain values, as the checked strings and
  numbers of the span methods are; query operators (\<open>$gt\<close>, \<open>$exists\<close>, ...) inside a
  condition, which the unchecked arguments of sentences.removeAnnotation may carry, and
  the key order of a stored sub-document are not modelled.
\<close>

fun pull_cond :: "jsval \<Rightarrow> jsval \<Rightarrow> bool" where
  "pull_cond (JObj q) e = list_all (\<lambda>(k, v). get_prop e k = v) q"
| "pull_cond q e = (e = q)"

text \<open>
  The modifiers \<open>{$push: {field: v}}\<close> and \<open>{$pull: {field: cond}}\<close> on the two array
  fields of a sentence document. Fields outside the document type are not tracked.
\<close>

definition push :: "string \<Rightarrow> jsval \<Rightarrow> doc \<Rightarrow> doc" where
  "push field v d =
     (if field = ''spanAnnotations''
      then d\<lparr>spanAnnotations := spanAnnotations d @ [spanAnnotation_of v]\<rparr>
      else if field = ''annotations''
      then d\<lparr>annotations := annotations d @ [annotation_of v]\<rparr>
      else d)"

definition pull :: "string \<Rightarrow> jsval \<Rightarrow> doc \<Rightarrow> doc" where
  "pull field c d =
     (if field = ''spanAnnotations''
      then d\<lparr>spanAnnotations :=
               filter (\<lambda>s. \<not> pull_cond c (spanAnnotation_js s)) (spanAnnotations d)\<rparr>
      else if field = ''annotations''
      then d\<lparr>annotations := filter (\<lambda>a. \<not> pull_cond c (annotation_js a)) (annotations d)\<rparr>
      else d)"

section \<open>The methods of sentences.js\<close>

text \<open>The pattern of \<open>checkSentence\<close>.\<close>

definition sentencePattern :: pattern where
  "sentencePattern =
     PObject
       [(''sentence'', PString),
        (''annotations'',
           PArray (PObject [(''type'', PString),
                            (''value'', PObject [(''begin'', PNumber), (''end'', PNumber)])])),
        (''spanAnnotations'',
           PArray (PObject [(''type'', PString), (''begin'', PNumber), (''end'', PNumber)])),
        (''zScore'', PNumber)]"

text \<open>\<open>checkSentence\<close> returns (\<open>True\<close>) or throws Match.Error (\<open>False\<close>).\<close>

definition checkSentence :: "jsval \<Rightarrow> bool" where
  "checkSentence s = matches sentencePattern s"

text \<open>\<open>(lastDoc && lastDoc.readableId) || 0\<close>.\<close>

definition currentId :: "doc option \<Rightarrow> int" where
  "currentId lastDoc =
     (case lastDoc of
        None \<Rightarrow> 0
      | Some d \<Rightarrow> (case readableId d of None \<Rightarrow> 0 | Some n \<Rightarrow> if n \<noteq> 0 then n else 0))"

text \<open>
  The object literal sentences.insert hands to \<open>Sentences.insert\<close>: the four checked
  fields of the argument (the spread), then the stamped fields, \<open>readableId\<close> being
  \<open>currentId + 1\<close> in doubles. \<open>new_id\<close> is the \<open>_id\<close> the store generates and \<open>now\<close>
  the value of \<open>new Date()\<close>.
\<close>

definition new_doc :: "string \<Rightarrow> int \<Rightarrow> jsval \<Rightarrow> int \<Rightarrow> string \<Rightarrow> user \<Rightarrow> doc" where
  "new_doc new_id now s cur uid u =
     \<lparr>doc_id = new_id,
      sentence = str_of (get_prop s ''sentence''),
      annotations = map annotation_of (elems_of (get_prop s ''annotations'')),
      spanAnnotations = map spanAnnotation_of (elems_of (get_prop s ''spanAnnotations'')),
      zScore = num_of (get_prop s ''zScore''),
      readableId = Some (js_plus cur 1),
      createdAt = now,
      owner = uid,
      username = user_name u\<rparr>"

text \<open>
  sentences.insert (lines 41-59). \<open>!this.userId\<close> holds for no user id and for the empty
  string. Reading \<open>.username\<close> of a user document that does not exist throws a TypeError
  while the argument of \<open>Sentences.insert\<close> is built, before the insert.
\<close>

definition sentences_insert ::
  "invocation \<Rightarrow> string \<Rightarrow> int \<Rightarrow> jsval \<Rightarrow> store \<Rightarrow> outcome \<times> store" where
  "sentences_insert this new_id now s st =
     (if \<not> checkSentence s then (Threw MatchError, st)
      else
        (case userId this of
           None \<Rightarrow> (Threw NotAuthorized, st)
         | Some uid \<Rightarrow>
             (if uid = [] then (Threw NotAuthorized, st)
              else
                (let lastDoc = findOne_sort_desc (Sentences st);
                     cur = currentId lastDoc
                 in (case findOne_user (users st) uid of
                       None \<Rightarrow> (Threw TypeError, st)
                     | Some u \<Rightarrow>
                         (case coll_insert (new_doc new_id now s cur uid u) (Sentences st) of
                            Inl err \<Rightarrow> (Threw err, st)
                          | Inr ds \<Rightarrow> (Returned, st\<lparr>Sentences := ds\<rparr>)))))))"

text \<open>sentences.remove (lines 60-62), on a document id.\<close>

definition sentences_remove :: "invocation \<Rightarrow> string \<Rightarrow> store \<Rightarrow> outcome \<times> store" where
  "sentences_remove this sentenceId st =
     (Returned, st\<lparr>Sentences := coll_remove sentenceId (Sentences st)\<rparr>)"

text \<open>
  The names bound in the module's scope: the five imports, the exported collection and
  the function \<open>checkSentence\<close>.
\<close>

definition module_scope :: "string list" where
  "module_scope =
     [''Meteor'', ''HTTP'', ''Mongo'', ''check'', ''TSV'', ''Sentences'', ''checkSentence'']"

text \<open>
  sentences.addAnnotation (lines 63-67) calls \<open>update\<close> on the identifier \<open>Sentence\<close>.
  Evaluating an identifier that is bound nowhere throws a ReferenceError. The modifier is
  \<open>{$push: {type: type, value: value}}\<close>: it names the fields \<open>type\<close> and \<open>value\<close>.
\<close>

definition sentences_addAnnotation ::
  "invocation \<Rightarrow> string \<Rightarrow> jsval \<Rightarrow> jsval \<Rightarrow> store \<Rightarrow> outcome \<times> store" where
  "sentences_addAnnotation this sentenceId atype avalue st =
     (if ''Sentence'' \<in> set module_scope
      then (Returned,
            st\<lparr>Sentences :=
                 coll_update sentenceId (push ''value'' avalue \<circ> push ''type'' atype)
                   (Sentences st)\<rparr>)
      else (Threw ReferenceError, st))"

text \<open>sentences.removeAnnotation (lines 68-77).\<close>

definition sentences_removeAnnotation ::
  "invocation \<Rightarrow> string \<Rightarrow> jsval \<Rightarrow> jsval \<Rightarrow> store \<Rightarrow> outcome \<times> store" where
  "sentences_removeAnnotation this sentenceId atype avalue st =
     (Returned,
      st\<lparr>Sentences :=
           coll_update sentenceId
             (pull ''annotations'' (JObj [(''type'', atype), (''value'', avalue)]))
             (Sentences st)\<rparr>)"

text \<open>sentences.addSpanAnnotation (lines 78-86): four checks in the source's order.\<close>

definition sentences_addSpanAnnotation ::
  "invocation \<Rightarrow> jsval \<Rightarrow> jsval \<Rightarrow> jsval \<Rightarrow> jsval \<Rightarrow> store \<Rightarrow> outcome \<times> store" where
  "sentences_addSpanAnnotation this sentenceId atype abegin aend st =
     (if \<not> matches PString sentenceId then (Threw MatchError, st)
      else if \<not> matches PNumber abegin then (Threw MatchError, st)
      else if \<not> matches PNumber aend then (Threw MatchError, st)
      else if \<not> matches PString atype then (Threw MatchError, st)
      else (Returned,
            st\<lparr>Sentences :=
                 coll_update (str_of sentenceId)
                   (push ''spanAnnotations''
                      (JObj [(''type'', atype), (''begin'', abegin), (''end'', aend)]))
                   (Sentences st)\<rparr>))"

text \<open>sentences.removeSpanAnnotation (lines 87-100).\<close>

definition sentences_removeSpanAnnotation ::
  "invocation \<Rightarrow> jsval \<Rightarrow> jsval \<Rightarrow> jsval \<Rightarrow> jsval \<Rightarrow> store \<Rightarrow> outcome \<times> store" where
  "sentences_removeSpanAnnotation this sentenceId atype abegin aend st =
     (if \<not> matches PString sentenceId then (Threw MatchError, st)
      else if \<not> matches PNumber abegin then (Threw MatchError, st)
      else if \<not> matches PNumber aend then (Threw MatchError, st)
      else if \<not> matches PString atype then (Threw MatchError, st)
      else (Returned,
            st\<lparr>Sentences :=
                 coll_update (str_of sentenceId)
                   (pull ''spanAnnotations''
                      (JObj [(''type'', atype), (''begin'', abegin), (''end'', aend)]))
                   (Sentences st)\<rparr>))"

text \<open>
  sentences.importFromTsv (lines 101-110). The platform is a parameter: \<open>isServer\<close> is
  \<open>Meteor.isServer\<close>, \<open>defaultUrl\<close> is \<open>Meteor.settings.public.defaultUrl\<close> (\<open>None\<close> when
  unset), \<open>http\<close> gives the pair \<open>(err, resp)\<close> that \<open>HTTP.call\<close> hands to its callback
  for a URL, and \<open>tsv\<close> is \<open>TSV.parse\<close> (\<open>None\<close> when it throws). The callback runs after
  the method has returned, so what it throws never reaches the caller; its effect is the
  list of \<open>console.log\<close> calls, each with its arguments.
\<close>

record platform =
  isServer :: bool
  defaultUrl :: "string option"
  http :: "string \<Rightarrow> jsval \<times> jsval"
  tsv :: "jsval \<Rightarrow> jsval option"

text \<open>\<open>url || Meteor.settings.public.defaultUrl\<close>; an absent or empty url is falsy.\<close>

definition url_or_default :: "string option \<Rightarrow> string option \<Rightarrow> string option" where
  "url_or_default url dflt =
     (case url of None \<Rightarrow> dflt | Some u \<Rightarrow> if u \<noteq> [] then Some u else dflt)"

text \<open>String concatenation writes \<open>undefined\<close> as the word.\<close>

definition url_string :: "string option \<Rightarrow> string" where
  "url_string url = (case url of None \<Rightarrow> ''undefined'' | Some u \<Rightarrow> u)"

definition callback :: "platform \<Rightarrow> jsval \<Rightarrow> jsval \<Rightarrow> jsval list list" where
  "callback pf err resp =
     [err, resp] # (case tsv pf resp of None \<Rightarrow> [] | Some t \<Rightarrow> [[t]])"

definition sentences_importFromTsv ::
  "platform \<Rightarrow> invocation \<Rightarrow> string option \<Rightarrow> string \<Rightarrow> store
     \<Rightarrow> outcome \<times> store \<times> jsval list list" where
  "sentences_importFromTsv pf this url filename st =
     (let url' = url_or_default url (defaultUrl pf)
      in if isServer pf
         then (case http pf (url_string url' @ ''/'' @ filename) of
                 (err, resp) \<Rightarrow> (Returned, st, callback pf err resp))
         else (Returned, st, []))"

section \<open>Notions the properties are stated with\<close>

text \<open>The \<open>readableId\<close>s present in a collection, in natural order.\<close>

fun readableIds :: "doc list \<Rightarrow> int list" where
  "readableIds [] = []"
| "readableIds (d # ds) =
     (case readableId d of None \<Rightarrow> readableIds ds | Some n \<Rightarrow> n # readableIds ds)"

text \<open>The maximum \<open>readableId\<close> present in a collection, \<open>0\<close> when no document has one.\<close>

definition max_readableId :: "doc list \<Rightarrow> int" where
  "max_readableId ds = (if readableIds ds = [] then 0 else Max (set (readableIds ds)))"

text \<open>
  An authenticated caller: the invocation carries a user id, and \<open>Meteor.users\<close> holds
  the account of that id.
\<close>

definition authenticated :: "invocation \<Rightarrow> store \<Rightarrow> bool" where
  "authenticated this st =
     (case userId this of
        None \<Rightarrow> False
      | Some uid \<Rightarrow> uid \<noteq> [] \<and> findOne_user (users st) uid \<noteq> None)"

text \<open>The document an id identifies: the one \<open>update\<close> applies its modifier to.\<close>

definition find_doc :: "string \<Rightarrow> doc list \<Rightarrow> doc option" where
  "find_doc sid ds = find (\<lambda>d. doc_id d = sid) ds"

subsection \<open>Concrete inputs\<close>

definition example_user :: user where
  "example_user = \<lparr>user_id = ''u1'', user_name = Some ''ann''\<rparr>"

definition example_caller :: invocation where
  "example_caller = \<lparr>userId = Some ''u1''\<rparr>"

definition anonymous :: invocation where
  "anonymous = \<lparr>userId = None\<rparr>"

definition example_sentence :: jsval where
  "example_sentence =
     JObj [(''sentence'', JStr ''hi''),
           (''annotations'',
              JArr [JObj [(''type'', JStr ''pos''),
                          (''value'', JObj [(''begin'', JNum 0), (''end'', JNum 1)])]]),
           (''spanAnnotations'',
              JArr [JObj [(''type'', JStr ''NP''), (''begin'', JNum 0), (''end'', JNum 2)]]),
           (''zScore'', JNum 3)]"

definition empty_store :: store where
  "empty_store = \<lparr>Sentences = [], users = [example_user]\<rparr>"

definition example_doc :: doc where
  "example_doc =
     \<lparr>doc_id = ''a'', sentence = ''hi'',
      annotations = [\<lparr>ann_type = ''pos'', ann_begin = 0, ann_end = 1\<rparr>],
      spanAnnotations = [\<lparr>span_type = ''NP'', span_begin = 0, span_end = 2\<rparr>],
      zScore = 3, readableId = Some 1, createdAt = 5, owner = ''u1'',
      username = Some ''ann''\<rparr>"

definition example_store :: store where
  "example_store = \<lparr>Sentences = [example_doc], users = [example_user]\<rparr>"

text \<open>A collection whose largest \<open>readableId\<close> is \<open>2 ^ 53\<close>.\<close>

definition big_store :: store where
  "big_store =
     \<lparr>Sentences = [example_doc\<lparr>readableId := Some 9007199254740992\<rparr>],
      users = [example_user]\<rparr>"

definition unreachable :: platform where
  "unreachable =
     \<lparr>isServer = True, defaultUrl = Some ''http://localhost:9999'',
      http = (\<lambda>u. (JObj [(''code'', JStr ''ECONNREFUSED'')], JUndefined)),
      tsv = (\<lambda>r. None)\<rparr>"

section \<open>Lemmas on the store's primitives\<close>

lemma shift_of_small: "a < 2 ^ 53 \<Longrightarrow> shift_of a = 0"
  by (subst shift_of.simps) simp

lemma round_magnitude_small: "0 \<le> a \<Longrightarrow> a < 2 ^ 53 \<Longrightarrow> round_magnitude a = a"
  by (simp add: round_magnitude_def shift_of_small)

lemma round_magnitude_2_53: "round_magnitude (2 ^ 53) = 2 ^ 53"
  by (simp add: round_magnitude_def shift_of.simps)

lemma round_magnitude_exact: "0 \<le> a \<Longrightarrow> a \<le> 2 ^ 53 \<Longrightarrow> round_magnitude a = a"
  using round_magnitude_small [of a] round_magnitude_2_53 by (cases "a = 2 ^ 53") auto

lemma to_double_exact: "\<bar>x\<bar> \<le> 2 ^ 53 \<Longrightarrow> to_double x = x"
  by (auto simp: to_double_def round_magnitude_exact)

lemma js_plus_exact: "\<bar>a + b\<bar> \<le> 2 ^ 53 \<Longrightarrow> js_plus a b = a + b"
  by (simp add: js_plus_def to_double_exact)

lemma js_plus_2_53: "js_plus 9007199254740992 1 = 9007199254740992"
  by (simp add: js_plus_def to_double_def round_magnitude_def shift_of.simps)

lemma doc_id_new_doc: "doc_id (new_doc new_id now s cur uid u) = new_id"
  by (simp add: new_doc_def)

lemma findOne_None: "findOne_sort_desc ds = None \<longleftrightarrow> ds = []"
  by (induction ds) (auto split: option.splits)

lemma findOne_key:
  "findOne_sort_desc ds = Some b \<Longrightarrow>
     readableId b = (if readableIds ds = [] then None else Some (Max (set (readableIds ds))))"
proof (induction ds arbitrary: b)
  case Nil
  then show ?case by simp
next
  case (Cons d ds)
  show ?case
  proof (cases "findOne_sort_desc ds")
    case None
    then have "ds = []" by (simp add: findOne_None)
    with Cons.prems show ?thesis
      by (auto split: option.splits)
  next
    case (Some c)
    note IH = Cons.IH [OF Some]
    show ?thesis
    proof (cases "readableId d")
      case None
      with Cons.prems Some IH show ?thesis
        by (cases "readableId c") (auto split: if_splits)
    next
      case (Some n)
      with Cons.prems \<open>findOne_sort_desc ds = Some c\<close> IH show ?thesis
        by (cases "readableId c") (auto simp: max_def split: if_splits)
    qed
  qed
qed

lemma currentId_findOne:
  "currentId (findOne_sort_desc ds) = max_readableId ds"
proof (cases "findOne_sort_desc ds")
  case None
  then show ?thesis by (simp add: findOne_None currentId_def max_readableId_def)
next
  case (Some b)
  from findOne_key [OF Some] show ?thesis
    by (auto simp: currentId_def max_readableId_def Some split: option.splits if_splits)
qed

lemma readableIds_append: "readableIds (xs @ ys) = readableIds xs @ readableIds ys"
  by (induction xs) (auto split: option.splits)

lemma max_readableId_snoc:
  assumes "readableId d = Some (max_readableId ds + 1)"
  shows "max_readableId (ds @ [d]) = max_readableId ds + 1"
proof (cases "readableIds ds = []")
  case True
  with assms show ?thesis
    by (simp add: max_readableId_def readableIds_append)
next
  case False
  then have "Max (insert (Max (set (readableIds ds)) + 1) (set (readableIds ds)))
               = Max (set (readableIds ds)) + 1"
    by (subst Max_insert) (auto simp: max_def)
  with assms False show ?thesis
    by (simp add: max_readableId_def readableIds_append)
qed

lemma insert_ok:
  assumes "checkSentence s" and "authenticated this st"
    and "new_id \<notin> set (map doc_id (Sentences st))"
  shows "\<exists>d. sentences_insert this new_id now s st = (Returned, st\<lparr>Sentences := Sentences st @ [d]\<rparr>)
            \<and> readableId d = Some (js_plus (max_readableId (Sentences st)) 1) \<and> doc_id d = new_id"
  using assms
  by (auto simp: sentences_insert_def authenticated_def coll_insert_def new_doc_def
      currentId_findOne Let_def split: option.splits)

lemma authenticated_Sentences_update [simp]:
  "authenticated this (st\<lparr>Sentences := ds\<rparr>) = authenticated this st"
  by (simp add: authenticated_def split: option.splits)

lemma checkSentence_example: "checkSentence example_sentence"
  by (simp add: checkSentence_def sentencePattern_def example_sentence_def)

lemma authenticated_example: "authenticated example_caller empty_store"
  by (simp add: authenticated_def example_caller_def empty_store_def findOne_user_def example_user_def)

lemma authenticated_example_store: "authenticated example_caller example_store"
  by (simp add: authenticated_def example_caller_def example_store_def findOne_user_def
      example_user_def)

lemma Sentence_unbound: "''Sentence'' \<notin> set module_scope"
  by (simp add: module_scope_def)

lemma addAnnotation_ReferenceError:
  "sentences_addAnnotation this sentenceId atype avalue st = (Threw ReferenceError, st)"
  by (simp add: sentences_addAnnotation_def Sentence_unbound)

lemma coll_remove_absent:
  "sid \<notin> set (map doc_id ds) \<Longrightarrow> coll_remove sid ds = ds"
  by (induction ds) (auto simp: coll_remove_def)

lemma pull_cond_span:
  "pull_cond (JObj [(''type'', JStr t), (''begin'', JNum b), (''end'', JNum e)])
       (spanAnnotation_js x)
     \<longleftrightarrow> span_type x = t \<and> span_begin x = b \<and> span_end x = e"
  by (auto simp: spanAnnotation_js_def)

lemma find_doc_coll_update:
  "find_doc sid ds = Some d \<Longrightarrow> doc_id (f d) = doc_id d \<Longrightarrow>
     find_doc sid (coll_update sid f ds) = Some (f d)"
  by (induction ds) (auto simp: find_doc_def split: if_splits)

lemma coll_update_twice:
  "(\<And>d. doc_id (f d) = doc_id d) \<Longrightarrow>
     coll_update sid g (coll_update sid f ds) = coll_update sid (g \<circ> f) ds"
  by (induction ds) auto

lemma coll_update_id:
  "(\<And>d. find_doc sid ds = Some d \<Longrightarrow> f d = d) \<Longrightarrow> coll_update sid f ds = ds"
  by (induction ds) (auto simp: find_doc_def)

lemma spanAnnotation_of_triple:
  "spanAnnotation_of (JObj [(''type'', JStr t), (''begin'', JNum b), (''end'', JNum e)])
     = \<lparr>span_type = t, span_begin = b, span_end = e\<rparr>"
  by (simp add: spanAnnotation_of_def)

lemma pull_span:
  "pull ''spanAnnotations'' (JObj [(''type'', JStr t), (''begin'', JNum b), (''end'', JNum e)]) d
     = d\<lparr>spanAnnotations :=
           filter (\<lambda>x. \<not> (span_type x = t \<and> span_begin x = b \<and> span_end x = e))
             (spanAnnotations d)\<rparr>"
  by (simp add: pull_def pull_cond_span del: pull_cond.simps)

lemma push_span:
  "push ''spanAnnotations'' (JObj [(''type'', JStr t), (''begin'', JNum b), (''end'', JNum e)]) d
     = d\<lparr>spanAnnotations :=
           spanAnnotations d @ [\<lparr>span_type = t, span_begin = b, span_end = e\<rparr>]\<rparr>"
  by (simp add: push_def spanAnnotation_of_triple)

lemma span_eq_iff:
  "x = \<lparr>span_type = t, span_begin = b, span_end = e\<rparr>
     \<longleftrightarrow> span_type x = t \<and> span_begin x = b \<and> span_end x = e"
  by (cases x) auto

section \<open>sentences.insert\<close>

text \<open>
  C1, as amended. Two sequential calls of sentences.insert by an authenticated caller,
  each with a well-shaped sentence and a fresh \<open>_id\<close>, on a collection whose maximum
  \<open>readableId\<close> (zero when no document has one) is at least \<open>- 2 ^ 53\<close> and at most
  \<open>2 ^ 53 - 2\<close>, both return and append one document each; the \<open>readableId\<close> of the
  second document is that of the first plus one, and the first is one plus the maximum
  \<open>readableId\<close> present in the collection before the calls.
\<close>

theorem insert_readableId_sequential:
  assumes "checkSentence s1" and "checkSentence s2" and "authenticated this st"
    and "id1 \<notin> set (map doc_id (Sentences st))"
    and "id2 \<notin> set (map doc_id (Sentences st))" and "id2 \<noteq> id1"
    and "- (2 ^ 53) \<le> max_readableId (Sentences st)"
    and "max_readableId (Sentences st) + 2 \<le> 2 ^ 53"
  shows "\<exists>d1 d2 r.
           sentences_insert this id1 t1 s1 st = (Returned, st\<lparr>Sentences := Sentences st @ [d1]\<rparr>) \<and>
           sentences_insert this id2 t2 s2 (st\<lparr>Sentences := Sentences st @ [d1]\<rparr>)
             = (Returned, st\<lparr>Sentences := Sentences st @ [d1, d2]\<rparr>) \<and>
           readableId d1 = Some r \<and> readableId d2 = Some (r + 1) \<and>
           r = max_readableId (Sentences st) + 1"
proof -
  let ?m = "max_readableId (Sentences st)"
  have e1: "js_plus ?m 1 = ?m + 1"
    using assms(7) assms(8) by (intro js_plus_exact) simp
  have e2: "js_plus (?m + 1) 1 = ?m + 1 + 1"
    using assms(7) assms(8) by (intro js_plus_exact) simp
  from insert_ok [OF assms(1) assms(3) assms(4), of t1]
  obtain d1 where
    i1: "sentences_insert this id1 t1 s1 st = (Returned, st\<lparr>Sentences := Sentences st @ [d1]\<rparr>)"
    and r1: "readableId d1 = Some (?m + 1)"
    and k1: "doc_id d1 = id1"
    unfolding e1 by blast
  let ?st1 = "st\<lparr>Sentences := Sentences st @ [d1]\<rparr>"
  have a1: "authenticated this ?st1"
    using assms(3) by simp
  have f2: "id2 \<notin> set (map doc_id (Sentences ?st1))"
    using assms(5) assms(6) k1 by simp
  have m1: "max_readableId (Sentences ?st1) = ?m + 1"
    using max_readableId_snoc [OF r1] by simp
  from insert_ok [OF assms(2) a1 f2, of t2]
  obtain d2 where
    i2: "sentences_insert this id2 t2 s2 ?st1 = (Returned, ?st1\<lparr>Sentences := Sentences ?st1 @ [d2]\<rparr>)"
    and r2: "readableId d2 = Some (?m + 1 + 1)"
    unfolding m1 e2 by blast
  from i2 have i2': "sentences_insert this id2 t2 s2 ?st1 = (Returned, st\<lparr>Sentences := Sentences st @ [d1, d2]\<rparr>)"
    by simp
  from i1 i2' r1 r2 show ?thesis
    by blast
qed

theorem insert_readableId_sequential_witness:
  "max_readableId (Sentences example_store) = 1 \<and>
   (\<exists>d1 d2.
      sentences_insert example_caller ''b'' 6 example_sentence example_store
        = (Returned, example_store\<lparr>Sentences := Sentences example_store @ [d1]\<rparr>) \<and>
      sentences_insert example_caller ''c'' 7 example_sentence
          (example_store\<lparr>Sentences := Sentences example_store @ [d1]\<rparr>)
        = (Returned, example_store\<lparr>Sentences := Sentences example_store @ [d1, d2]\<rparr>) \<and>
      readableId d1 = Some 2 \<and> readableId d2 = Some 3)"
proof -
  have fresh: "''b'' \<notin> set (map doc_id (Sentences example_store))"
    "''c'' \<notin> set (map doc_id (Sentences example_store))" "''c'' \<noteq> ''b''"
    by (simp_all add: example_store_def example_doc_def)
  have m: "max_readableId (Sentences example_store) = 1"
    by (simp add: max_readableId_def example_store_def example_doc_def)
  have bounds: "- (2 ^ 53) \<le> max_readableId (Sentences example_store)"
    "max_readableId (Sentences example_store) + 2 \<le> 2 ^ 53"
    by (simp_all add: m)
  from insert_readableId_sequential
    [OF checkSentence_example checkSentence_example authenticated_example_store fresh bounds,
      of 6 7]
  obtain d1 d2 r where
    "sentences_insert example_caller ''b'' 6 example_sentence example_store
       = (Returned, example_store\<lparr>Sentences := Sentences example_store @ [d1]\<rparr>)"
    and "sentences_insert example_caller ''c'' 7 example_sentence
           (example_store\<lparr>Sentences := Sentences example_store @ [d1]\<rparr>)
       = (Returned, example_store\<lparr>Sentences := Sentences example_store @ [d1, d2]\<rparr>)"
    and "readableId d1 = Some r" and "readableId d2 = Some (r + 1)"
    and "r = max_readableId (Sentences example_store) + 1"
    by blast
  with m show ?thesis
    by auto
qed

text \<open>
  C1 as stated fails where doubles stop counting by one: on a collection whose maximum
  \<open>readableId\<close> is \<open>2 ^ 53 = 9007199254740992\<close>, two sequential inserts both return and
  both stamp \<open>2 ^ 53\<close> again, which is neither one plus the maximum nor, for the second,
  one plus the first.
\<close>

theorem insert_readableId_sequential_counterexample:
  "max_readableId (Sentences big_store) = 9007199254740992 \<and>
   fst (sentences_insert example_caller ''b'' 6 example_sentence big_store) = Returned \<and>
   fst (sentences_insert example_caller ''c'' 7 example_sentence
          (snd (sentences_insert example_caller ''b'' 6 example_sentence big_store)))
     = Returned \<and>
   map readableId
     (Sentences
        (snd (sentences_insert example_caller ''c'' 7 example_sentence
                (snd (sentences_insert example_caller ''b'' 6 example_sentence big_store)))))
     = [Some 9007199254740992, Some 9007199254740992, Some 9007199254740992]"
proof -
  have m: "max_readableId (Sentences big_store) = 9007199254740992"
    by (simp add: max_readableId_def big_store_def example_doc_def)
  have one: "sentences_insert example_caller ''b'' 6 example_sentence big_store
               = (Returned,
                  big_store\<lparr>Sentences :=
                    Sentences big_store
                      @ [new_doc ''b'' 6 example_sentence 9007199254740992 ''u1'' example_user]\<rparr>)"
    by (simp add: sentences_insert_def checkSentence_example example_caller_def big_store_def
        findOne_user_def example_user_def coll_insert_def currentId_def example_doc_def
        doc_id_new_doc)
  have two: "sentences_insert example_caller ''c'' 7 example_sentence
               (big_store\<lparr>Sentences :=
                  Sentences big_store
                    @ [new_doc ''b'' 6 example_sentence 9007199254740992 ''u1'' example_user]\<rparr>)
               = (Returned,
                  big_store\<lparr>Sentences :=
                    Sentences big_store
                      @ [new_doc ''b'' 6 example_sentence 9007199254740992 ''u1'' example_user,
                         new_doc ''c'' 7 example_sentence 9007199254740992 ''u1'' example_user]\<rparr>)"
    by (simp add: sentences_insert_def checkSentence_example example_caller_def big_store_def
        findOne_user_def example_user_def coll_insert_def currentId_def example_doc_def
        new_doc_def js_plus_2_53)
  have ids: "readableId (new_doc i t example_sentence 9007199254740992 ''u1'' example_user)
               = Some 9007199254740992" for i t
    by (simp add: new_doc_def js_plus_2_53)
  show ?thesis
    by (simp add: m one two ids) (simp add: big_store_def example_doc_def)
qed

text \<open>
  C9. On a collection that is empty, or where the \<open>readableId\<close> of every document is
  absent or \<open>0\<close>, an authenticated, well-shaped sentences.insert appends a document with
  \<open>readableId\<close> \<open>1\<close>.
\<close>

theorem insert_first_readableId:
  assumes "checkSentence s" and "authenticated this st"
    and "new_id \<notin> set (map doc_id (Sentences st))"
    and "list_all (\<lambda>d. readableId d = None \<or> readableId d = Some 0) (Sentences st)"
  shows "\<exists>d. sentences_insert this new_id now s st
                = (Returned, st\<lparr>Sentences := Sentences st @ [d]\<rparr>) \<and>
              readableId d = Some 1"
proof -
  have "set (readableIds ds) \<subseteq> {0}"
    if "list_all (\<lambda>d. readableId d = None \<or> readableId d = Some 0) ds" for ds
    using that by (induction ds) (auto split: option.splits)
  from this [OF assms(4)] have sub: "set (readableIds (Sentences st)) \<subseteq> {0}" .
  have "max_readableId (Sentences st) = 0"
  proof (cases "readableIds (Sentences st) = []")
    case True
    then show ?thesis by (simp add: max_readableId_def)
  next
    case False
    then obtain x where "x \<in> set (readableIds (Sentences st))"
      by (cases "readableIds (Sentences st)") auto
    with sub have "set (readableIds (Sentences st)) = {0}" by auto
    with False show ?thesis by (simp add: max_readableId_def)
  qed
  with insert_ok [OF assms(1-3), of now] show ?thesis
    by (auto simp: js_plus_exact)
qed

theorem insert_first_readableId_witness:
  "list_all (\<lambda>d. readableId d = None \<or> readableId d = Some 0) (Sentences empty_store) \<and>
   (\<exists>d. sentences_insert example_caller ''a'' 5 example_sentence empty_store
           = (Returned, empty_store\<lparr>Sentences := Sentences empty_store @ [d]\<rparr>) \<and>
         readableId d = Some 1)"
proof -
  have fresh: "''a'' \<notin> set (map doc_id (Sentences empty_store))"
    and zero: "list_all (\<lambda>d. readableId d = None \<or> readableId d = Some 0) (Sentences empty_store)"
    by (simp_all add: empty_store_def)
  from insert_first_readableId [OF checkSentence_example authenticated_example fresh zero, of 5] zero
  show ?thesis by blast
qed

text \<open>
  C2, as amended. Without an authenticated caller (\<open>this.userId\<close> unset) sentences.insert
  fails for every input and leaves the store as it was: with the authorization error when
  the input passes \<open>checkSentence\<close>, with Match.Error when it does not, since the shape
  check runs first.
\<close>

theorem insert_unauthenticated:
  assumes "userId this = None"
  shows "sentences_insert this new_id now s st
           = (Threw (if checkSentence s then NotAuthorized else MatchError), st)"
  using assms by (simp add: sentences_insert_def)

theorem insert_unauthenticated_witness:
  "userId anonymous = None \<and>
   sentences_insert anonymous ''a'' 5 example_sentence empty_store = (Threw NotAuthorized, empty_store)"
proof -
  have u: "userId anonymous = None" by (simp add: anonymous_def)
  from insert_unauthenticated [OF u, of "''a''" 5 example_sentence empty_store] u
  show ?thesis by (simp add: checkSentence_example)
qed

text \<open>
  C2 as stated fails: the anonymous insert of \<open>null\<close> throws Match.Error, not the
  authorization error.
\<close>

theorem insert_unauthenticated_malformed_counterexample:
  "fst (sentences_insert anonymous ''a'' 5 JNull empty_store) = Threw MatchError \<and>
   fst (sentences_insert anonymous ''a'' 5 JNull empty_store) \<noteq> Threw NotAuthorized"
  by (simp add: sentences_insert_def checkSentence_def sentencePattern_def)

section \<open>sentences.addAnnotation\<close>

text \<open>
  C3. The claim is that sentences.addAnnotation appends \<open>(type, value)\<close> to the
  \<open>annotations\<close> of the identified document. The code throws a ReferenceError instead and
  the annotations of the document stay as they were: here on the document \<open>a\<close> of
  \<open>example_store\<close>.
\<close>

theorem addAnnotation_throws:
  "sentences_addAnnotation example_caller ''a'' (JStr ''pos'')
       (JObj [(''begin'', JNum 0), (''end'', JNum 1)]) example_store
     = (Threw ReferenceError, example_store) \<and>
   map annotations (Sentences example_store) = [[\<lparr>ann_type = ''pos'', ann_begin = 0, ann_end = 1\<rparr>]]"
  by (simp add: addAnnotation_ReferenceError example_store_def example_doc_def)

section \<open>sentences.remove\<close>

text \<open>
  C5. sentences.remove returns for every id and every caller; when no document has the
  id, the number of documents is unchanged (the store is).
\<close>

theorem remove_never_raises:
  "fst (sentences_remove this sid st) = Returned \<and>
   (sid \<notin> set (map doc_id (Sentences st)) \<longrightarrow>
      length (Sentences (snd (sentences_remove this sid st))) = length (Sentences st) \<and>
      snd (sentences_remove this sid st) = st)"
  by (simp add: sentences_remove_def coll_remove_absent)

theorem remove_never_raises_witness:
  "''zz'' \<notin> set (map doc_id (Sentences example_store)) \<and>
   fst (sentences_remove anonymous ''zz'' example_store) = Returned \<and>
   length (Sentences (snd (sentences_remove anonymous ''zz'' example_store))) = 1 \<and>
   snd (sentences_remove anonymous ''zz'' example_store) = example_store"
proof -
  have a: "''zz'' \<notin> set (map doc_id (Sentences example_store))"
    by (simp add: example_store_def example_doc_def)
  have l: "length (Sentences example_store) = 1"
    by (simp add: example_store_def)
  from remove_never_raises [of anonymous "''zz''" example_store] a l
  show ?thesis by simp
qed

section \<open>Span annotations\<close>

text \<open>
  C6. On the document an id identifies, sentences.removeSpanAnnotation with a type,
  a begin and an end leaves in \<open>spanAnnotations\<close> exactly the entries, in order, that
  differ from the triple in one of the three fields: every entry equal in all three is
  removed and no other. Nothing else of the collection changes.
\<close>

theorem removeSpanAnnotation_removes_matching:
  assumes "find_doc sid (Sentences st) = Some d"
  shows "\<exists>st'. sentences_removeSpanAnnotation this (JStr sid) (JStr t) (JNum b) (JNum e) st
                  = (Returned, st') \<and>
           find_doc sid (Sentences st')
             = Some (d\<lparr>spanAnnotations :=
                        filter (\<lambda>x. \<not> (span_type x = t \<and> span_begin x = b \<and> span_end x = e))
                          (spanAnnotations d)\<rparr>) \<and>
           Sentences st'
             = coll_update sid
                 (\<lambda>d. d\<lparr>spanAnnotations :=
                        filter (\<lambda>x. \<not> (span_type x = t \<and> span_begin x = b \<and> span_end x = e))
                          (spanAnnotations d)\<rparr>)
                 (Sentences st)"
proof -
  let ?f = "\<lambda>d. d\<lparr>spanAnnotations :=
                    filter (\<lambda>x. \<not> (span_type x = t \<and> span_begin x = b \<and> span_end x = e))
                      (spanAnnotations d)\<rparr>"
  have eq: "pull ''spanAnnotations''
              (JObj [(''type'', JStr t), (''begin'', JNum b), (''end'', JNum e)]) = ?f"
    by (rule ext) (rule pull_span)
  have run: "sentences_removeSpanAnnotation this (JStr sid) (JStr t) (JNum b) (JNum e) st
               = (Returned, st\<lparr>Sentences := coll_update sid ?f (Sentences st)\<rparr>)"
    by (simp add: sentences_removeSpanAnnotation_def eq)
  have "find_doc sid (coll_update sid ?f (Sentences st)) = Some (?f d)"
    using assms by (rule find_doc_coll_update) simp
  with run show ?thesis by simp
qed

theorem removeSpanAnnotation_removes_matching_witness:
  "find_doc ''a'' (Sentences example_store) = Some example_doc \<and>
   sentences_removeSpanAnnotation anonymous (JStr ''a'') (JStr ''NP'') (JNum 0) (JNum 2) example_store
     = (Returned, example_store\<lparr>Sentences := [example_doc\<lparr>spanAnnotations := []\<rparr>]\<rparr>)"
proof -
  have f: "find_doc ''a'' (Sentences example_store) = Some example_doc"
    by (simp add: find_doc_def example_store_def example_doc_def)
  from removeSpanAnnotation_removes_matching [OF f, of anonymous "''NP''" 0 2]
  obtain st' where
    "sentences_removeSpanAnnotation anonymous (JStr ''a'') (JStr ''NP'') (JNum 0) (JNum 2) example_store
       = (Returned, st')"
    and "Sentences st'
       = coll_update ''a''
           (\<lambda>d. d\<lparr>spanAnnotations :=
                  filter (\<lambda>x. \<not> (span_type x = ''NP'' \<and> span_begin x = 0 \<and> span_end x = 2))
                    (spanAnnotations d)\<rparr>)
           (Sentences example_store)"
    by blast
  moreover have "sentences_removeSpanAnnotation anonymous (JStr ''a'') (JStr ''NP'') (JNum 0) (JNum 2) example_store
     = (Returned, example_store\<lparr>Sentences := [example_doc\<lparr>spanAnnotations := []\<rparr>]\<rparr>)"
    by (simp add: sentences_removeSpanAnnotation_def pull_span example_store_def example_doc_def)
  ultimately show ?thesis using f by simp
qed

text \<open>
  C4, as amended. sentences.addSpanAnnotation with a triple followed by
  sentences.removeSpanAnnotation with the same triple, on the same document, leaves its
  \<open>spanAnnotations\<close> equal to the array before the add without the entries equal to the
  triple; when the array held no such entry before, the whole store is as before.
\<close>

theorem span_add_remove_roundtrip:
  assumes "find_doc sid (Sentences st) = Some d"
  shows "\<exists>st1 st2.
           sentences_addSpanAnnotation this (JStr sid) (JStr t) (JNum b) (JNum e) st
             = (Returned, st1) \<and>
           sentences_removeSpanAnnotation this' (JStr sid) (JStr t) (JNum b) (JNum e) st1
             = (Returned, st2) \<and>
           find_doc sid (Sentences st2)
             = Some (d\<lparr>spanAnnotations :=
                        filter (\<lambda>x. x \<noteq> \<lparr>span_type = t, span_begin = b, span_end = e\<rparr>)
                          (spanAnnotations d)\<rparr>) \<and>
           (\<lparr>span_type = t, span_begin = b, span_end = e\<rparr> \<notin> set (spanAnnotations d)
              \<longrightarrow> st2 = st)"
proof -
  let ?c = "JObj [(''type'', JStr t), (''begin'', JNum b), (''end'', JNum e)]"
  let ?tr = "\<lparr>span_type = t, span_begin = b, span_end = e\<rparr>"
  let ?g = "\<lambda>d. d\<lparr>spanAnnotations := filter (\<lambda>x. x \<noteq> ?tr) (spanAnnotations d)\<rparr>"
  let ?st1 = "st\<lparr>Sentences := coll_update sid (push ''spanAnnotations'' ?c) (Sentences st)\<rparr>"
  let ?st2 = "st\<lparr>Sentences := coll_update sid ?g (Sentences st)\<rparr>"
  have comp: "pull ''spanAnnotations'' ?c \<circ> push ''spanAnnotations'' ?c = ?g"
    by (rule ext) (simp add: pull_span push_span span_eq_iff)
  have keep: "doc_id (push ''spanAnnotations'' ?c x) = doc_id x" for x
    by (simp add: push_span)
  have a: "sentences_addSpanAnnotation this (JStr sid) (JStr t) (JNum b) (JNum e) st
             = (Returned, ?st1)"
    by (simp add: sentences_addSpanAnnotation_def)
  have r: "sentences_removeSpanAnnotation this' (JStr sid) (JStr t) (JNum b) (JNum e) ?st1
             = (Returned, ?st2)"
    by (simp add: sentences_removeSpanAnnotation_def coll_update_twice [OF keep] comp)
  have f: "find_doc sid (Sentences ?st2) = Some (?g d)"
    using find_doc_coll_update [OF assms, of ?g] by simp
  have i: "?st2 = st" if "?tr \<notin> set (spanAnnotations d)"
  proof -
    have "filter (\<lambda>x. x \<noteq> ?tr) (spanAnnotations d) = spanAnnotations d"
      using that by (auto simp: filter_id_conv)
    then have "?g d = d" by simp
    then have "coll_update sid ?g (Sentences st) = Sentences st"
      using assms by (intro coll_update_id) auto
    then show ?thesis by simp
  qed
  from a r f i show ?thesis by blast
qed

theorem span_add_remove_roundtrip_witness:
  "find_doc ''a'' (Sentences example_store) = Some example_doc \<and>
   \<lparr>span_type = ''VP'', span_begin = 3, span_end = 4\<rparr> \<notin> set (spanAnnotations example_doc) \<and>
   sentences_addSpanAnnotation anonymous (JStr ''a'') (JStr ''VP'') (JNum 3) (JNum 4) example_store
     = (Returned,
        example_store\<lparr>Sentences :=
          [example_doc\<lparr>spanAnnotations :=
             [\<lparr>span_type = ''NP'', span_begin = 0, span_end = 2\<rparr>,
              \<lparr>span_type = ''VP'', span_begin = 3, span_end = 4\<rparr>]\<rparr>]\<rparr>) \<and>
   sentences_removeSpanAnnotation anonymous (JStr ''a'') (JStr ''VP'') (JNum 3) (JNum 4)
       (example_store\<lparr>Sentences :=
          [example_doc\<lparr>spanAnnotations :=
             [\<lparr>span_type = ''NP'', span_begin = 0, span_end = 2\<rparr>,
              \<lparr>span_type = ''VP'', span_begin = 3, span_end = 4\<rparr>]\<rparr>]\<rparr>)
     = (Returned, example_store)"
proof -
  have f: "find_doc ''a'' (Sentences example_store) = Some example_doc"
    by (simp add: find_doc_def example_store_def example_doc_def)
  have n: "\<lparr>span_type = ''VP'', span_begin = 3, span_end = 4\<rparr> \<notin> set (spanAnnotations example_doc)"
    by (simp add: example_doc_def)
  have a: "sentences_addSpanAnnotation anonymous (JStr ''a'') (JStr ''VP'') (JNum 3) (JNum 4) example_store
     = (Returned,
        example_store\<lparr>Sentences :=
          [example_doc\<lparr>spanAnnotations :=
             [\<lparr>span_type = ''NP'', span_begin = 0, span_end = 2\<rparr>,
              \<lparr>span_type = ''VP'', span_begin = 3, span_end = 4\<rparr>]\<rparr>]\<rparr>)"
    by (simp add: sentences_addSpanAnnotation_def push_span example_store_def example_doc_def)
  from span_add_remove_roundtrip [OF f, of anonymous "''VP''" 3 4 anonymous] n a f
  show ?thesis by auto
qed

text \<open>
  C4 as stated fails on a document that already holds the triple: the add makes a second
  copy and the remove pulls both.
\<close>

theorem span_add_remove_roundtrip_counterexample:
  "map spanAnnotations (Sentences example_store)
     = [[\<lparr>span_type = ''NP'', span_begin = 0, span_end = 2\<rparr>]] \<and>
   map spanAnnotations
     (Sentences (snd (sentences_removeSpanAnnotation anonymous
        (JStr ''a'') (JStr ''NP'') (JNum 0) (JNum 2)
        (snd (sentences_addSpanAnnotation anonymous
           (JStr ''a'') (JStr ''NP'') (JNum 0) (JNum 2) example_store)))))
     = [[]]"
  by (simp add: sentences_removeSpanAnnotation_def sentences_addSpanAnnotation_def
      pull_span push_span example_store_def example_doc_def)

text \<open>
  C7. sentences.addSpanAnnotation with a sentence id or a type that is not a string, or
  a begin or an end that is not a number, throws Match.Error and leaves the store as it
  was.
\<close>

theorem addSpanAnnotation_rejects_malformed:
  assumes "\<not> matches PString sentenceId \<or> \<not> matches PNumber abegin \<or>
           \<not> matches PNumber aend \<or> \<not> matches PString atype"
  shows "sentences_addSpanAnnotation this sentenceId atype abegin aend st
           = (Threw MatchError, st)"
  using assms by (auto simp: sentences_addSpanAnnotation_def)

theorem addSpanAnnotation_rejects_malformed_witness:
  "\<not> matches PNumber (JStr ''0'') \<and>
   sentences_addSpanAnnotation example_caller (JStr ''a'') (JStr ''NP'') (JStr ''0'') (JNum 2)
       example_store
     = (Threw MatchError, example_store)"
proof -
  have m: "\<not> matches PNumber (JStr ''0'')" by simp
  then have "\<not> matches PString (JStr ''a'') \<or> \<not> matches PNumber (JStr ''0'') \<or>
             \<not> matches PNumber (JNum 2) \<or> \<not> matches PString (JStr ''NP'')"
    by simp
  from addSpanAnnotation_rejects_malformed [OF this, of example_caller example_store] m
  show ?thesis by simp
qed

section \<open>sentences.importFromTsv\<close>

text \<open>
  C8. For every url and filename, on every platform and whatever the HTTP call reports,
  sentences.importFromTsv returns to its caller and leaves the store as it was; on the
  server the first thing logged is the pair \<open>(err, resp)\<close> of the HTTP call, and on the
  client nothing is logged.
\<close>

theorem importFromTsv_frame:
  "fst (sentences_importFromTsv pf this url filename st) = Returned \<and>
   fst (snd (sentences_importFromTsv pf this url filename st)) = st \<and>
   (isServer pf \<longrightarrow>
      hd (snd (snd (sentences_importFromTsv pf this url filename st)))
        = [fst (http pf (url_string (url_or_default url (defaultUrl pf)) @ ''/'' @ filename)),
           snd (http pf (url_string (url_or_default url (defaultUrl pf)) @ ''/'' @ filename))]) \<and>
   (\<not> isServer pf \<longrightarrow> snd (snd (sentences_importFromTsv pf this url filename st)) = [])"
  by (simp add: sentences_importFromTsv_def callback_def Let_def split: prod.splits)

theorem importFromTsv_frame_witness:
  "isServer unreachable \<and>
   sentences_importFromTsv unreachable anonymous None ''x.tsv'' example_store
     = (Returned, example_store, [[JObj [(''code'', JStr ''ECONNREFUSED'')], JUndefined]])"
proof -
  have s: "isServer unreachable" by (simp add: unreachable_def)
  have "sentences_importFromTsv unreachable anonymous None ''x.tsv'' example_store
     = (Returned, example_store, [[JObj [(''code'', JStr ''ECONNREFUSED'')], JUndefined]])"
    by (simp add: sentences_importFromTsv_def callback_def unreachable_def url_or_default_def)
  with importFromTsv_frame [of unreachable anonymous None "''x.tsv''" example_store] s
  show ?thesis by simp
qed

section \<open>Authorization of the mutating methods\<close>

text \<open>
  C10. sentences.remove, sentences.removeAnnotation, sentences.addSpanAnnotation and
  sentences.removeSpanAnnotation never fail with the authorization error, and what they
  do does not depend on the caller: an anonymous caller deletes and mutates as any other.
\<close>

theorem mutations_unauthorized_never:
  "fst (sentences_remove this sid st) \<noteq> Threw NotAuthorized \<and>
   fst (sentences_removeAnnotation this sid atype avalue st) \<noteq> Threw NotAuthorized \<and>
   fst (sentences_addSpanAnnotation this sentenceId stype abegin aend st) \<noteq> Threw NotAuthorized \<and>
   fst (sentences_removeSpanAnnotation this sentenceId stype abegin aend st) \<noteq> Threw NotAuthorized \<and>
   sentences_remove this sid st = sentences_remove this' sid st \<and>
   sentences_removeAnnotation this sid atype avalue st
     = sentences_removeAnnotation this' sid atype avalue st \<and>
   sentences_addSpanAnnotation this sentenceId stype abegin aend st
     = sentences_addSpanAnnotation this' sentenceId stype abegin aend st \<and>
   sentences_removeSpanAnnotation this sentenceId stype abegin aend st
     = sentences_removeSpanAnnotation this' sentenceId stype abegin aend st"
  by (simp add: sentences_remove_def sentences_removeAnnotation_def
      sentences_addSpanAnnotation_def sentences_removeSpanAnnotation_def)

theorem mutations_unauthorized_never_witness:
  "sentences_remove anonymous ''a'' example_store = (Returned, example_store\<lparr>Sentences := []\<rparr>) \<and>
   sentences_removeAnnotation anonymous ''a'' (JStr ''pos'')
       (JObj [(''begin'', JNum 0), (''end'', JNum 1)]) example_store
     = (Returned, example_store\<lparr>Sentences := [example_doc\<lparr>annotations := []\<rparr>]\<rparr>) \<and>
   fst (sentences_remove anonymous ''a'' example_store) \<noteq> Threw NotAuthorized"
proof -
  have r: "sentences_remove example_caller ''a'' example_store
             = (Returned, example_store\<lparr>Sentences := []\<rparr>)"
    by (simp add: sentences_remove_def coll_remove_def example_store_def example_doc_def)
  have p: "sentences_removeAnnotation example_caller ''a'' (JStr ''pos'')
       (JObj [(''begin'', JNum 0), (''end'', JNum 1)]) example_store
     = (Returned, example_store\<lparr>Sentences := [example_doc\<lparr>annotations := []\<rparr>]\<rparr>)"
    by (simp add: sentences_removeAnnotation_def pull_def annotation_js_def
        example_store_def example_doc_def)
  note any = mutations_unauthorized_never [of anonymous "''a''" example_store "JStr ''pos''"
      "JObj [(''begin'', JNum 0), (''end'', JNum 1)]" "JStr ''a''" "JStr ''NP''" "JNum 0" "JNum 2"
      example_caller]
  from any have "sentences_remove anonymous ''a'' example_store
                   = sentences_remove example_caller ''a'' example_store"
    by blast
  with r have r': "sentences_remove anonymous ''a'' example_store
                     = (Returned, example_store\<lparr>Sentences := []\<rparr>)"
    by simp
  from any have "sentences_removeAnnotation anonymous ''a'' (JStr ''pos'')
                     (JObj [(''begin'', JNum 0), (''end'', JNum 1)]) example_store
                   = sentences_removeAnnotation example_caller ''a'' (JStr ''pos'')
                       (JObj [(''begin'', JNum 0), (''end'', JNum 1)]) example_store"
    by blast
  with p have p': "sentences_removeAnnotation anonymous ''a'' (JStr ''pos'')
                     (JObj [(''begin'', JNum 0), (''end'', JNum 1)]) example_store
                   = (Returned, example_store\<lparr>Sentences := [example_doc\<lparr>annotations := []\<rparr>]\<rparr>)"
    by simp
  from any have "fst (sentences_remove anonymous ''a'' example_store) \<noteq> Threw NotAuthorized"
    by blast
  with r' p' show ?thesis by blast
qed

end
